theory Spec2Isabelle
  imports Main "HOL-Library.Word"
begin

section \<open>Strings\<close>

text \<open>
  A JavaScript string is a sequence of UTF-16 code units. The regular expressions of
  \<^verbatim>\<open>index.ts\<close> carry no \<^verbatim>\<open>u\<close> flag, so they too work on code units.
  \<open>js\<close> embeds an ASCII literal.
\<close>

type_synonym jschar = "16 word"
type_synonym jsstring = "jschar list"

definition js :: "string \<Rightarrow> jsstring" where
  "js s = map (\<lambda>c. of_nat (of_char c)) s"

definition NL :: jschar where "NL = 0x0A"
definition PERIOD :: jschar where "PERIOD = 0x2E"
definition DQUOTE :: jschar where "DQUOTE = 0x22"
definition BACKTICK :: jschar where "BACKTICK = 0x60"
definition BACKSLASH :: jschar where "BACKSLASH = 0x5C"
definition DOLLAR :: jschar where "DOLLAR = 0x24"

text \<open>The class \<^verbatim>\<open>\d\<close>: the ten ASCII digits.\<close>

definition isDigit :: "jschar \<Rightarrow> bool" where
  "isDigit c = (0x30 \<le> c \<and> c \<le> 0x39)"

text \<open>
  The line terminators of ECMAScript: LF, CR, LINE SEPARATOR, PARAGRAPH SEPARATOR.
  Without the \<^verbatim>\<open>s\<close> flag, \<^verbatim>\<open>.\<close> matches every code unit but these.
\<close>

definition isLineTerminator :: "jschar \<Rightarrow> bool" where
  "isLineTerminator c = (c = 0x0A \<or> c = 0x0D \<or> c = 0x2028 \<or> c = 0x2029)"

text \<open>
  The class \<^verbatim>\<open>\s\<close>, which is also what \<^verbatim>\<open>String.prototype.trim\<close> strips:
  WhiteSpace and LineTerminator of the ECMAScript grammar.
\<close>

definition isSpace :: "jschar \<Rightarrow> bool" where
  "isSpace c = (c = 0x09 \<or> c = 0x0A \<or> c = 0x0B \<or> c = 0x0C \<or> c = 0x0D \<or> c = 0x20
     \<or> c = 0xA0 \<or> c = 0x1680 \<or> (0x2000 \<le> c \<and> c \<le> 0x200A) \<or> c = 0x2028 \<or> c = 0x2029
     \<or> c = 0x202F \<or> c = 0x205F \<or> c = 0x3000 \<or> c = 0xFEFF)"

text \<open>\<^verbatim>\<open>str.trim()\<close>\<close>

definition trim :: "jsstring \<Rightarrow> jsstring" where
  "trim s = rev (dropWhile isSpace (rev (dropWhile isSpace s)))"

text \<open>
  \<^verbatim>\<open>text.split("\n")\<close>: the pieces between line feeds; the empty string gives one empty
  piece, and a text ending in a line feed gives a last empty piece.
\<close>

fun split_nl :: "jsstring \<Rightarrow> jsstring list" where
  "split_nl [] = [[]]"
| "split_nl (c # cs) =
     (if c = NL then [] # split_nl cs
      else (case split_nl cs of [] \<Rightarrow> [[c]] | l # ls \<Rightarrow> (c # l) # ls))"

section \<open>The candidate parser\<close>

text \<open>
  \<^verbatim>\<open>line.match(/^\d+\.\s*(.+)$/)\<close>, by the backtracking semantics of the pattern, one
  function for each piece with what follows it as its continuation. A greedy quantifier
  first tries to take one more code unit and falls back to stopping where it is when
  the rest of the pattern fails after that. The result is capture group 1, \<open>None\<close> when
  \<^verbatim>\<open>match\<close> returns \<^verbatim>\<open>null\<close>.

  \<open>re_content\<close> is \<^verbatim>\<open>(.+)$\<close>: the greedy \<^verbatim>\<open>.+\<close> takes the longest run without a line
  terminator, and \<^verbatim>\<open>$\<close> (no \<^verbatim>\<open>m\<close> flag) holds at the end of the input only; giving
  code units back cannot help, since that leaves input behind.
\<close>

definition re_content :: "jsstring \<Rightarrow> jsstring option" where
  "re_content s =
     (let run = takeWhile (\<lambda>c. \<not> isLineTerminator c) s
      in if run \<noteq> [] \<and> drop (length run) s = [] then Some run else None)"

text \<open>\<^verbatim>\<open>\s*(.+)$\<close>\<close>

fun re_spaces :: "jsstring \<Rightarrow> jsstring option" where
  "re_spaces [] = re_content []"
| "re_spaces (c # cs) =
     (if isSpace c
      then (case re_spaces cs of Some m \<Rightarrow> Some m | None \<Rightarrow> re_content (c # cs))
      else re_content (c # cs))"

text \<open>\<^verbatim>\<open>\.\s*(.+)$\<close>\<close>

fun re_period :: "jsstring \<Rightarrow> jsstring option" where
  "re_period [] = None"
| "re_period (c # cs) = (if c = PERIOD then re_spaces cs else None)"

text \<open>\<^verbatim>\<open>\d*\.\s*(.+)$\<close>: the digits of \<^verbatim>\<open>\d+\<close> after the first.\<close>

fun re_digits :: "jsstring \<Rightarrow> jsstring option" where
  "re_digits [] = re_period []"
| "re_digits (c # cs) =
     (if isDigit c
      then (case re_digits cs of Some m \<Rightarrow> Some m | None \<Rightarrow> re_period (c # cs))
      else re_period (c # cs))"

text \<open>The whole pattern; \<^verbatim>\<open>^\<close> pins the match to the start of the line.\<close>

fun line_match :: "jsstring \<Rightarrow> jsstring option" where
  "line_match [] = None"
| "line_match (c # cs) = (if isDigit c then re_digits cs else None)"

text \<open>
  The loop of \<open>parseCommitCandidates\<close> over the lines, \<open>candidates\<close> as the accumulator:
  \<^verbatim>\<open>if (match?.[1]) candidates.push(match[1].trim())\<close>. The test is on the capture before
  it is trimmed; an empty string is falsy.
\<close>

fun collect :: "jsstring list \<Rightarrow> jsstring list \<Rightarrow> jsstring list" where
  "collect [] candidates = candidates"
| "collect (line # lines) candidates =
     (case line_match line of
        None \<Rightarrow> collect lines candidates
      | Some m \<Rightarrow>
          if m \<noteq> [] then collect lines (candidates @ [trim m])
          else collect lines candidates)"

definition parseCommitCandidates :: "jsstring \<Rightarrow> jsstring list" where
  "parseCommitCandidates text = collect (split_nl text) []"

text \<open>What one round of the loop pushes, if anything.\<close>

definition pushed :: "jsstring \<Rightarrow> jsstring option" where
  "pushed line =
     (case line_match line of
        None \<Rightarrow> None
      | Some m \<Rightarrow> if m \<noteq> [] then Some (trim m) else None)"






section \<open>Escaping for the commit command\<close>

text \<open>
  \<^verbatim>\<open>str.replace(/c/g, r)\<close> for a pattern of one literal code unit \<open>c\<close> and a replacement
  \<open>r\<close> without \<^verbatim>\<open>$\<close>: every occurrence of \<open>c\<close> becomes \<open>r\<close>.
\<close>

definition replace_all :: "jschar \<Rightarrow> jsstring \<Rightarrow> jsstring \<Rightarrow> jsstring" where
  "replace_all c r str = concat (map (\<lambda>x. if x = c then r else [x]) str)"

definition escapeQuotes :: "jsstring \<Rightarrow> jsstring" where
  "escapeQuotes str =
     replace_all BACKTICK [BACKSLASH, BACKTICK] (replace_all DQUOTE [BACKSLASH, DQUOTE] str)"

text \<open>
  Written from the words of the round-trip property and the POSIX shell grammar, not
  from the source; the shell is not part of the repository. How \<^verbatim>\<open>sh\<close> reads a
  double-quoted string, from the code unit after the opening quote to the end of the
  command line. Inside double quotes a backslash before a double quote, a backtick, a
  backslash or a dollar sign is removed and the code unit after it is kept; a backslash
  before a line feed is removed together with the line feed; a backslash before
  anything else stands for itself. An unescaped double quote closes the string. An
  unescaped dollar sign or backtick starts an expansion or a command substitution.

  The result is \<open>Some\<close> of the argument the command receives when the string is closed
  by the last code unit of the command line and nothing in it is expanded, \<open>None\<close>
  otherwise: when the string is never closed, when it is closed before the end, so
  that more of the command line follows, or when an expansion takes place.
\<close>

definition shell_escapable :: "jschar \<Rightarrow> bool" where
  "shell_escapable c = (c = DQUOTE \<or> c = BACKTICK \<or> c = BACKSLASH \<or> c = DOLLAR)"

fun sh_double_quoted :: "jsstring \<Rightarrow> jsstring option" where
  "sh_double_quoted [] = None"
| "sh_double_quoted [c] = (if c = DQUOTE then Some [] else None)"
| "sh_double_quoted (c # d # rest) =
     (if c = DQUOTE then None
      else if c = DOLLAR \<or> c = BACKTICK then None
      else if c = BACKSLASH then
        (if d = NL then sh_double_quoted rest
         else if shell_escapable d then map_option (Cons d) (sh_double_quoted rest)
         else map_option (Cons c) (sh_double_quoted (d # rest)))
      else map_option (Cons c) (sh_double_quoted (d # rest)))"

text \<open>
  The messages that hold no dollar sign and in which every backslash is followed by a
  code unit other than a double quote, a backtick, a backslash, a dollar sign and a
  line feed; so no backslash is the last code unit.
\<close>

fun shell_literal :: "jsstring \<Rightarrow> bool" where
  "shell_literal [] = True"
| "shell_literal [c] = (c \<noteq> DOLLAR \<and> c \<noteq> BACKSLASH)"
| "shell_literal (c # d # rest) =
     (c \<noteq> DOLLAR \<and> (c = BACKSLASH \<longrightarrow> d \<noteq> NL \<and> \<not> shell_escapable d)
      \<and> shell_literal (d # rest))"

section \<open>The model provider\<close>

text \<open>
  Modelled from the spec: the type \<^verbatim>\<open>ModelConfig\<close> of the package \<^verbatim>\<open>kly\<close>, which is
  imported and not declared in the repository: a provider name, an optional model
  name, a key, an optional base URL.
\<close>

record ModelConfig =
  provider :: jsstring
  model :: "jsstring option"
  apiKey :: jsstring
  baseURL :: "jsstring option"

text \<open>
  \<^verbatim>\<open>createOpenAI(settings)(modelId)\<close> and its two siblings: the client a vendor's factory
  makes from the settings, bound to a model name.
\<close>

datatype Vendor = OpenAI | Anthropic | Google

datatype LanguageModel =
  LanguageModel (vendor: Vendor) (client_apiKey: jsstring)
    (client_baseURL: "jsstring option") (modelId: jsstring)

text \<open>
  \<^verbatim>\<open>x || d\<close> for \<open>x\<close> of type \<^verbatim>\<open>string | undefined\<close>: \<^verbatim>\<open>undefined\<close> and the empty string are
  falsy.
\<close>

fun or_else :: "jsstring option \<Rightarrow> jsstring \<Rightarrow> jsstring" where
  "or_else None d = d"
| "or_else (Some x) d = (if x = [] then d else x)"

text \<open>A thrown \<^verbatim>\<open>Error\<close> is \<open>Inl\<close> of its message.\<close>

definition createProviderFromConfig :: "ModelConfig \<Rightarrow> jsstring + LanguageModel" where
  "createProviderFromConfig config =
     (if provider config = js ''openai'' then
        Inr (LanguageModel OpenAI (apiKey config) (baseURL config)
               (or_else (model config) (js ''gpt-4o-mini'')))
      else if provider config = js ''anthropic'' then
        Inr (LanguageModel Anthropic (apiKey config) (baseURL config)
               (or_else (model config) (js ''claude-3-5-haiku-20241022'')))
      else if provider config = js ''google'' then
        Inr (LanguageModel Google (apiKey config) (baseURL config)
               (or_else (model config) (js ''gemini-2.0-flash-exp'')))
      else Inl (js ''Unsupported provider: '' @ provider config))"

text \<open>The case labels of the \<^verbatim>\<open>switch\<close> and the default model names, vendor by vendor.\<close>

fun provider_name :: "Vendor \<Rightarrow> jsstring" where
  "provider_name OpenAI = js ''openai''"
| "provider_name Anthropic = js ''anthropic''"
| "provider_name Google = js ''google''"

fun default_model :: "Vendor \<Rightarrow> jsstring" where
  "default_model OpenAI = js ''gpt-4o-mini''"
| "default_model Anthropic = js ''claude-3-5-haiku-20241022''"
| "default_model Google = js ''gemini-2.0-flash-exp''"

section \<open>The tool\<close>

subsection \<open>Shell commands\<close>

text \<open>
  What \<^verbatim>\<open>execAsync(cmd)\<close> settles to: resolved with the two streams when the command
  exits with status zero, rejected otherwise with an error that carries a message and,
  when the process ran, what it had written to standard output.
\<close>

datatype proc =
  Resolved jsstring jsstring
| Rejected "jsstring option" jsstring

record ExecResult =
  exec_success :: bool
  exec_output :: jsstring
  exec_error :: "jsstring option"

text \<open>The two branches of \<open>execCommand\<close>: the \<^verbatim>\<open>try\<close> and the \<^verbatim>\<open>catch\<close>.\<close>

fun settle :: "proc \<Rightarrow> ExecResult" where
  "settle (Resolved stdout stderr) =
     \<lparr>exec_success = True, exec_output = stdout, exec_error = Some stderr\<rparr>"
| "settle (Rejected stdout msg) =
     \<lparr>exec_success = False, exec_output = or_else stdout [], exec_error = Some msg\<rparr>"

text \<open>The four commands the tool runs, and their command lines.\<close>

datatype command = RevParse | DiffStat | DiffCached | Commit jsstring

fun command_line :: "command \<Rightarrow> jsstring" where
  "command_line RevParse = js ''git rev-parse --is-inside-work-tree''"
| "command_line DiffStat = js ''git diff --cached --stat''"
| "command_line DiffCached = js ''git diff --cached''"
| "command_line (Commit quoted) = js ''git commit -m '' @ [DQUOTE] @ quoted @ [DQUOTE]"

subsection \<open>The prompt\<close>

text \<open>
  \<open>buildPrompt\<close> fills one of two fixed templates. The fixed text of the templates is
  not spelled out here: a prompt is the template chosen together with what fills its
  holes, the count, the language instruction and the diff.
\<close>

datatype Format = Conventional | Gitmoji

datatype LanguageInstruction = InChinese | InEnglish

datatype Prompt =
  ConventionalPrompt int LanguageInstruction jsstring
| GitmojiPrompt int LanguageInstruction jsstring

definition buildPrompt :: "jsstring \<Rightarrow> Format \<Rightarrow> int \<Rightarrow> jsstring \<Rightarrow> Prompt" where
  "buildPrompt diff format count language =
     (let languageInstruction = (if language = js ''zh'' then InChinese else InEnglish)
      in if format = Conventional then ConventionalPrompt count languageInstruction diff
         else GitmojiPrompt count languageInstruction diff)"

subsection \<open>The world around one invocation\<close>

text \<open>
  Everything \<open>execute\<close> awaits is answered by the world: the shell, the configuration
  accessor of the context, the model call (\<open>Inl\<close> the message of the error it throws),
  and the operator at the two prompts. \<open>select\<close> returns the value of the option
  the operator chose among those shown.
\<close>

datatype SelectOption = SelectOption (opt_name: jsstring) (opt_value: jsstring)

record world =
  shell :: "jsstring \<Rightarrow> proc"
  getConfigAsync :: "ModelConfig option"
  generateText :: "LanguageModel \<Rightarrow> Prompt \<Rightarrow> jsstring + jsstring"
  select :: "SelectOption list \<Rightarrow> jsstring"
  confirm :: bool

record GenerationRequest =
  format :: Format
  count :: int
  language :: jsstring

text \<open>
  What an invocation does, in order: the commands it runs, what it prints
  (\<^verbatim>\<open>output\<close>, \<^verbatim>\<open>error\<close> with its hints, the spinner), the provider it constructs, the
  model call, the prompts it shows.
\<close>

datatype event =
  Exec command
| Output jsstring
| ErrorReport jsstring "jsstring list"
| GetConfig
| Spinner jsstring
| SpinSucceed jsstring
| SpinFail jsstring
| CreateProvider ModelConfig
| GenerateText LanguageModel Prompt
| Select jsstring "SelectOption list"
| Confirm jsstring bool

text \<open>The record an invocation returns; a field left out of the object literal is \<open>None\<close>.\<close>

record ToolResult =
  success :: bool
  message :: "jsstring option"
  error :: "jsstring option"
  cancelled :: "bool option"
  suggestedMessage :: "jsstring option"

definition failure :: "jsstring option \<Rightarrow> ToolResult" where
  "failure e = \<lparr>success = False, message = None, error = e, cancelled = None,
     suggestedMessage = None\<rparr>"

definition CANCEL :: jsstring where
  "CANCEL = js ''__cancel__''"

definition execCommand :: "world \<Rightarrow> command \<Rightarrow> ExecResult" where
  "execCommand w cmd = settle (shell w (command_line cmd))"

text \<open>\<open>emit es run\<close>: the events \<open>es\<close> happen, then the rest of the run.\<close>

definition emit :: "event list \<Rightarrow> ToolResult \<times> event list \<Rightarrow> ToolResult \<times> event list" where
  "emit es run = (fst run, es @ snd run)"

subsection \<open>\<open>execute\<close>, from its last step to its first\<close>

text \<open>Step 7, the commit, once the operator has confirmed.\<close>

definition commit_step :: "world \<Rightarrow> jsstring \<Rightarrow> ToolResult \<times> event list" where
  "commit_step w selected =
     (let cmd = Commit (escapeQuotes selected);
          commitResult = execCommand w cmd
      in emit [Exec cmd]
           (if exec_success commitResult then
              (\<lparr>success = True, message = Some selected, error = None, cancelled = None,
                suggestedMessage = None\<rparr>,
               [Output (js ''Committed successfully!'')])
            else
              (failure (exec_error commitResult),
               [ErrorReport (js ''Commit failed'')
                  [or_else (exec_error commitResult) (js ''Unknown error'')]])))"

text \<open>Steps 6 and 7: the selection, the confirmation.\<close>

definition selection_options :: "jsstring list \<Rightarrow> SelectOption list" where
  "selection_options candidates =
     map (\<lambda>msg. SelectOption msg msg) candidates @ [SelectOption (js ''Cancel'') CANCEL]"

definition selection_flow :: "world \<Rightarrow> jsstring list \<Rightarrow> ToolResult \<times> event list" where
  "selection_flow w candidates =
     (let options = selection_options candidates;
          selected = select w options
      in emit [Select (js ''Select a commit message:'') options]
           (if selected = CANCEL then
              (\<lparr>success = False, message = None, error = None, cancelled = Some True,
                suggestedMessage = None\<rparr>,
               [Output (js ''Cancelled'')])
            else
              emit [Confirm (js ''Commit with this message?'') True]
                (if confirm w then commit_step w selected
                 else
                   (\<lparr>success = False, message = None, error = None, cancelled = Some True,
                     suggestedMessage = Some selected\<rparr>,
                    [Output (js ''Commit cancelled. You can commit manually with:''),
                     Output (js ''git commit -m '' @ [DQUOTE] @ selected @ [DQUOTE])]))))"

text \<open>The \<^verbatim>\<open>catch\<close> block of step 5, entered with the message of what was thrown.\<close>

definition caught :: "jsstring \<Rightarrow> ToolResult \<times> event list" where
  "caught msg =
     (failure (Some msg),
      [SpinFail (js ''Failed to generate''), ErrorReport (js ''Generation failed: '' @ msg) []])"

text \<open>
  Step 5, the \<^verbatim>\<open>try\<close> block: the provider, the model call, the parse. Both
  \<open>createProviderFromConfig\<close> and \<open>generateText\<close> may throw, which enters the
  \<^verbatim>\<open>catch\<close> block.
\<close>

definition generate :: "world \<Rightarrow> GenerationRequest \<Rightarrow> jsstring \<Rightarrow> ModelConfig \<Rightarrow> ToolResult \<times> event list" where
  "generate w req diff config =
     emit [CreateProvider config]
       (case createProviderFromConfig config of
          Inl msg \<Rightarrow> caught msg
        | Inr client \<Rightarrow>
            (let prompt = buildPrompt diff (format req) (count req) (language req)
             in emit [GenerateText client prompt]
                  (case generateText w client prompt of
                     Inl msg \<Rightarrow> caught msg
                   | Inr text \<Rightarrow>
                       emit [SpinSucceed (js ''Generated commit messages'')]
                         (let candidates = parseCommitCandidates text
                          in if length candidates = 0 then
                               (failure (Some (js ''Parse error'')),
                                [ErrorReport
                                   (js ''Failed to parse commit messages from AI response'') []])
                             else selection_flow w candidates))))"

text \<open>Steps 1 to 4, and the spinner that opens step 5.\<close>

definition execute :: "world \<Rightarrow> GenerationRequest \<Rightarrow> ToolResult \<times> event list" where
  "execute w req =
     (let gitCheck = execCommand w RevParse
      in emit [Exec RevParse]
           (if \<not> exec_success gitCheck then
              (failure (Some (js ''Not a git repository'')),
               [ErrorReport (js ''Not a git repository'')
                  [js ''Navigate to a git repository'',
                   js ''Or run 'git init' to initialize one'']])
            else
              (let stagedCheck = execCommand w DiffStat
               in emit [Exec DiffStat]
                    (if trim (exec_output stagedCheck) = [] then
                       (failure (Some (js ''No staged changes'')),
                        [ErrorReport (js ''No staged changes'')
                           [js ''Use 'git add <file>' to stage changes'',
                            js ''Use 'git add .' to stage all changes'']])
                     else
                       (let diffResult = execCommand w DiffCached;
                            diff = exec_output diffResult
                        in emit [Output (js ''Staged changes:''),
                                 Output (exec_output stagedCheck),
                                 Exec DiffCached, GetConfig]
                             (case getConfigAsync w of
                                None \<Rightarrow>
                                  (failure (Some (js ''No model configured'')),
                                   [ErrorReport (js ''No LLM model configured'')
                                      [js ''Run 'kly models' to configure a model'']])
                              | Some config \<Rightarrow>
                                  emit [Spinner (js ''Generating commit messages...'')]
                                    (generate w req diff config)))))))"

subsection \<open>Reading a run\<close>

text \<open>The model is touched: the provider is constructed or the model is called.\<close>

fun is_model_event :: "event \<Rightarrow> bool" where
  "is_model_event (CreateProvider config) = True"
| "is_model_event (GenerateText client prompt) = True"
| "is_model_event e = False"

text \<open>The commit commands of a run, the confirmations it asked for, its error reports.\<close>

fun is_commit :: "event \<Rightarrow> bool" where
  "is_commit (Exec (Commit quoted)) = True"
| "is_commit e = False"

fun is_confirm :: "event \<Rightarrow> bool" where
  "is_confirm (Confirm prompt dflt) = True"
| "is_confirm e = False"

fun is_error_report :: "event \<Rightarrow> bool" where
  "is_error_report (ErrorReport msg hints) = True"
| "is_error_report (SpinFail msg) = True"
| "is_error_report e = False"

subsection \<open>Example worlds\<close>

text \<open>
  A configured world in a repository: the repository check prints \<^verbatim>\<open>true\<close>, the two diff
  commands print \<open>staged\<close>, the model replies \<open>reply\<close>, the operator chooses by
  \<open>choice\<close> and answers the confirmation with \<open>answer\<close>.
\<close>

definition example_config :: ModelConfig where
  "example_config = \<lparr>provider = js ''openai'', model = None, apiKey = js ''sk-test'',
     baseURL = None\<rparr>"

definition example_request :: GenerationRequest where
  "example_request = \<lparr>format = Conventional, count = 3, language = js ''en''\<rparr>"

definition example_world ::
  "jsstring \<Rightarrow> jsstring \<Rightarrow> (SelectOption list \<Rightarrow> jsstring) \<Rightarrow> bool \<Rightarrow> world" where
  "example_world staged reply choice answer =
     \<lparr>shell = (\<lambda>cmd. if cmd = command_line RevParse then Resolved (js ''true'' @ [NL]) []
                      else Resolved staged []),
      getConfigAsync = Some example_config,
      generateText = (\<lambda>client prompt. Inr reply),
      select = choice,
      confirm = answer\<rparr>"

text \<open>The operator chooses the option at position \<open>i\<close> of those shown.\<close>

definition pick :: "nat \<Rightarrow> SelectOption list \<Rightarrow> jsstring" where
  "pick i opts = opt_value (opts ! i)"

definition two_candidates :: jsstring where
  "two_candidates = js ''1. feat(x): a\<newline>2. fix(y): b\<newline>''"

text \<open>
  A world where the repository check passes and \<^verbatim>\<open>git diff --cached --stat\<close> then exits
  with a non-zero status, having printed nothing.
\<close>

definition failing_diff_world :: world where
  "failing_diff_world =
     \<lparr>shell = (\<lambda>cmd. if cmd = command_line RevParse then Resolved (js ''true'' @ [NL]) []
                      else Rejected (Some []) (js ''Command failed: git diff --cached --stat'')),
      getConfigAsync = Some example_config,
      generateText = (\<lambda>client prompt. Inr two_candidates),
      select = pick 0,
      confirm = True\<rparr>"

section \<open>Properties of the candidate parser\<close>











lemma collect_eq: "collect ls acc = acc @ List.map_filter pushed ls"
  by (induction ls arbitrary: acc)
     (auto simp: pushed_def List.map_filter_simps split: option.splits)













lemma dropWhile_hd_id: "xs \<noteq> [] \<Longrightarrow> \<not> P (hd xs) \<Longrightarrow> dropWhile P xs = xs"
  by (cases xs) simp_all

text \<open>A trimmed string is empty or has no whitespace at either end.\<close>

lemma trim_ends:
  "trim s = [] \<or> (\<not> isSpace (hd (trim s)) \<and> \<not> isSpace (last (trim s)))"
proof (cases "dropWhile isSpace s = []")
  case True
  show ?thesis by (simp add: trim_def True)
next
  case False
  let ?t = "dropWhile isSpace s"
  let ?u = "dropWhile isSpace (rev ?t)"
  from False have h: "\<not> isSpace (hd ?t)" by (rule hd_dropWhile)
  with False have "\<not> isSpace (last (rev ?t))" by (simp add: last_rev)
  with False have u: "?u \<noteq> []"
    by (metis dropWhile_eq_Nil_conv last_in_set rev_is_Nil_conv)
  then have hu: "\<not> isSpace (hd ?u)" by (rule hd_dropWhile)
  from u have "last ?u = last (rev ?t)"
    by (metis append_Nil2 last_appendR takeWhile_dropWhile_id)
  with False h have lu: "\<not> isSpace (last ?u)" by (simp add: last_rev)
  from u hu lu show ?thesis by (simp add: trim_def hd_rev last_rev)
qed

lemma trim_trim: "trim (trim s) = trim s"
proof (cases "trim s = []")
  case True
  show ?thesis unfolding trim_def [of "trim s"] by (simp add: True)
next
  case False
  with trim_ends [of s] have e: "\<not> isSpace (hd (trim s))" "\<not> isSpace (last (trim s))"
    by simp_all
  from False e(1) have a: "dropWhile isSpace (trim s) = trim s" by (rule dropWhile_hd_id)
  from False e(2) have "dropWhile isSpace (rev (trim s)) = rev (trim s)"
    by (intro dropWhile_hd_id) (simp_all add: hd_rev)
  with a show ?thesis unfolding trim_def[of "trim s"] by simp
qed

text \<open>Every string \<open>parseCommitCandidates\<close> returns is its own trim.\<close>

lemma candidates_trimmed: "c \<in> set (parseCommitCandidates text) \<Longrightarrow> trim c = c"
  by (auto simp: parseCommitCandidates_def collect_eq List.map_filter_def pushed_def trim_trim
      split: option.splits if_splits)

text \<open>
  Claim C2 fails on the code: a numbered line with nothing but blanks after the period
  gives an empty candidate. The pattern gives one blank back to \<^verbatim>\<open>(.+)\<close>, the capture
  \<open>" "\<close> passes the test \<^verbatim>\<open>match?.[1]\<close>, and it is trimmed only after the test.
\<close>

theorem parseCommitCandidates_blank_content:
  "parseCommitCandidates (js ''1. '') = [[]]"
  by code_simp

section \<open>Properties of the escaping\<close>

lemma escapeQuotes_Nil: "escapeQuotes [] = []"
  by (simp add: escapeQuotes_def replace_all_def)

lemma escapeQuotes_Cons:
  "escapeQuotes (c # s) =
     (if c = DQUOTE \<or> c = BACKTICK then [BACKSLASH, c] else [c]) @ escapeQuotes s"
  by (simp add: escapeQuotes_def replace_all_def DQUOTE_def BACKTICK_def BACKSLASH_def)

text \<open>
  Claim C3. \<open>escapeQuotes\<close> puts a backslash before every double quote and every
  backtick and leaves every other code unit as it is: the result is the input with each
  code unit replaced by itself, after a backslash when it is one of the two.
\<close>

theorem escapeQuotes_quotes_only:
  "escapeQuotes str =
     concat (map (\<lambda>c. if c = DQUOTE \<or> c = BACKTICK then [BACKSLASH, c] else [c]) str)"
  by (induction str) (simp_all add: escapeQuotes_Nil escapeQuotes_Cons)

lemma quotes_escapable: "shell_escapable DQUOTE" "shell_escapable BACKTICK"
  by (simp_all add: shell_escapable_def)

lemma special_distinct:
  "DQUOTE \<noteq> BACKSLASH" "BACKTICK \<noteq> BACKSLASH" "DQUOTE \<noteq> BACKTICK"
  "DQUOTE \<noteq> NL" "BACKTICK \<noteq> NL" "DQUOTE \<noteq> DOLLAR" "BACKTICK \<noteq> DOLLAR"
  by (simp_all add: DQUOTE_def BACKTICK_def BACKSLASH_def NL_def DOLLAR_def)

text \<open>
  The reading of a double-quoted string is unfolded by the three lemmas that follow,
  not by its defining equation.
\<close>

declare sh_double_quoted.simps(3) [simp del]

text \<open>An escaped quote or backtick is read as the quote or backtick itself.\<close>

lemma sh_double_quoted_escaped:
  "shell_escapable d \<Longrightarrow> d \<noteq> NL \<Longrightarrow>
     sh_double_quoted (BACKSLASH # d # t) = map_option (Cons d) (sh_double_quoted t)"
  by (simp add: sh_double_quoted.simps(3) DQUOTE_def BACKSLASH_def DOLLAR_def BACKTICK_def)

text \<open>A code unit with no meaning inside double quotes is read as itself.\<close>

lemma sh_double_quoted_ordinary:
  "\<not> shell_escapable c \<Longrightarrow> t \<noteq> [] \<Longrightarrow>
     sh_double_quoted (c # t) = map_option (Cons c) (sh_double_quoted t)"
  by (cases t) (auto simp: sh_double_quoted.simps(3) shell_escapable_def)

lemma sh_double_quoted_backslash:
  "\<not> shell_escapable d \<Longrightarrow> d \<noteq> NL \<Longrightarrow>
     sh_double_quoted (BACKSLASH # d # t)
       = map_option (Cons BACKSLASH) (sh_double_quoted (d # t))"
  by (simp add: sh_double_quoted.simps(3) DQUOTE_def BACKSLASH_def DOLLAR_def BACKTICK_def)

lemma escapeQuotes_closed_nonempty: "escapeQuotes s @ [DQUOTE] \<noteq> []"
  by simp

text \<open>
  Claim C4, as amended. For every message that holds no dollar sign and in which every
  backslash is followed by a code unit other than a double quote, a backtick, a
  backslash, a dollar sign and a line feed, whatever double quotes and backticks the
  message holds, the shell reads the double-quoted string that \<open>execute\<close> builds from
  \<open>escapeQuotes\<close> of the message as exactly the message; and the commit command line
  is \<^verbatim>\<open>git commit -m\<close>, a blank, and that double-quoted string.
\<close>

theorem escapeQuotes_round_trip:
  "shell_literal s \<Longrightarrow>
     sh_double_quoted (escapeQuotes s @ [DQUOTE]) = Some s
     \<and> command_line (Commit (escapeQuotes s))
         = js ''git commit -m '' @ [DQUOTE] @ (escapeQuotes s @ [DQUOTE])"
proof (induction s rule: shell_literal.induct)
  case 1
  show ?case by (simp add: escapeQuotes_Nil)
next
  case (2 c)
  then have c: "c \<noteq> DOLLAR" "c \<noteq> BACKSLASH" by simp_all
  show ?case
  proof (cases "c = DQUOTE \<or> c = BACKTICK")
    case True
    then have "shell_escapable c" "c \<noteq> NL"
      using quotes_escapable special_distinct by auto
    then have "sh_double_quoted (BACKSLASH # c # [DQUOTE]) = Some [c]"
      by (simp add: sh_double_quoted_escaped)
    with True show ?thesis by (simp add: escapeQuotes_Nil escapeQuotes_Cons)
  next
    case False
    with c have "\<not> shell_escapable c" by (simp add: shell_escapable_def)
    then have "sh_double_quoted (c # [DQUOTE]) = Some [c]"
      by (simp add: sh_double_quoted_ordinary)
    with False show ?thesis by (simp add: escapeQuotes_Nil escapeQuotes_Cons)
  qed
next
  case (3 c d rest)
  let ?tail = "escapeQuotes (d # rest) @ [DQUOTE]"
  from 3 have IH: "sh_double_quoted ?tail = Some (d # rest)"
    by simp
  from "3.prems" have c: "c \<noteq> DOLLAR" by simp
  have tail: "?tail \<noteq> []" by simp
  have "sh_double_quoted (escapeQuotes (c # d # rest) @ [DQUOTE]) = Some (c # d # rest)"
  proof -
    consider (quote) "c = DQUOTE \<or> c = BACKTICK" | (bs) "c = BACKSLASH"
      | (other) "c \<noteq> DQUOTE" "c \<noteq> BACKTICK" "c \<noteq> BACKSLASH"
      by blast
    then show ?thesis
    proof cases
      case quote
      then have e: "escapeQuotes (c # d # rest) @ [DQUOTE] = BACKSLASH # c # ?tail"
        by (simp add: escapeQuotes_Cons)
      from quote have "shell_escapable c" "c \<noteq> NL"
        using quotes_escapable special_distinct by auto
      then have "sh_double_quoted (BACKSLASH # c # ?tail)
                   = map_option (Cons c) (sh_double_quoted ?tail)"
        by (rule sh_double_quoted_escaped)
      with e IH show ?thesis by simp
    next
      case other
      then have e: "escapeQuotes (c # d # rest) @ [DQUOTE] = c # ?tail"
        by (simp add: escapeQuotes_Cons)
      from other c have "\<not> shell_escapable c" by (simp add: shell_escapable_def)
      then have "sh_double_quoted (c # ?tail) = map_option (Cons c) (sh_double_quoted ?tail)"
        using tail by (rule sh_double_quoted_ordinary)
      with e IH show ?thesis by simp
    next
      case bs
      with "3.prems" have d: "d \<noteq> NL" "\<not> shell_escapable d" by simp_all
      then have dq: "d \<noteq> DQUOTE" "d \<noteq> BACKTICK" by (auto simp: shell_escapable_def)
      from bs have e: "escapeQuotes (c # d # rest) @ [DQUOTE] = BACKSLASH # ?tail"
        using special_distinct by (auto simp: escapeQuotes_Cons)
      from dq have t: "?tail = d # (escapeQuotes rest @ [DQUOTE])"
        by (simp add: escapeQuotes_Cons)
      from d have "sh_double_quoted (BACKSLASH # d # (escapeQuotes rest @ [DQUOTE]))
                   = map_option (Cons BACKSLASH)
                       (sh_double_quoted (d # (escapeQuotes rest @ [DQUOTE])))"
        by (intro sh_double_quoted_backslash)
      with IH show ?thesis unfolding e t by (simp add: bs)
    qed
  qed
  then show ?case by simp
qed

text \<open>
  The round trip of claim C4 on the message \<open>say "hi" to `x` in C:\tmp\<close>, which holds
  double quotes, backticks and a backslash before a letter.
\<close>

theorem escapeQuotes_round_trip_witness:
  "shell_literal (js ''say '' @ [DQUOTE] @ js ''hi'' @ [DQUOTE] @ js '' to `x` in C:''
       @ [BACKSLASH] @ js ''tmp'')
   \<and> sh_double_quoted (escapeQuotes (js ''say '' @ [DQUOTE] @ js ''hi'' @ [DQUOTE]
         @ js '' to `x` in C:'' @ [BACKSLASH] @ js ''tmp'') @ [DQUOTE])
       = Some (js ''say '' @ [DQUOTE] @ js ''hi'' @ [DQUOTE] @ js '' to `x` in C:''
           @ [BACKSLASH] @ js ''tmp'')"
proof -
  let ?m = "js ''say '' @ [DQUOTE] @ js ''hi'' @ [DQUOTE] @ js '' to `x` in C:''
       @ [BACKSLASH] @ js ''tmp''"
  have h: "shell_literal ?m"
    by code_simp
  from escapeQuotes_round_trip [OF h] h show ?thesis by simp
qed

text \<open>
  Claim C4, as stated, fails on a message that holds a double quote, a backtick and
  two backslashes in a row: \<open>escapeQuotes\<close> leaves the backslashes alone, and the
  shell makes one backslash of the two.
\<close>

theorem escapeQuotes_round_trip_counterexample:
  "escapeQuotes [DQUOTE, BACKTICK, BACKSLASH, BACKSLASH]
     = [BACKSLASH, DQUOTE, BACKSLASH, BACKTICK, BACKSLASH, BACKSLASH]
   \<and> sh_double_quoted (escapeQuotes [DQUOTE, BACKTICK, BACKSLASH, BACKSLASH] @ [DQUOTE])
     = Some [DQUOTE, BACKTICK, BACKSLASH]
   \<and> sh_double_quoted (escapeQuotes [DQUOTE, BACKTICK, BACKSLASH, BACKSLASH] @ [DQUOTE])
     \<noteq> Some [DQUOTE, BACKTICK, BACKSLASH, BACKSLASH]"
  by code_simp

section \<open>Properties of the provider\<close>

lemma provider_names_distinct:
  "js ''openai'' \<noteq> js ''anthropic''" "js ''openai'' \<noteq> js ''google''"
  "js ''anthropic'' \<noteq> js ''google''"
  by (simp_all add: js_def)

text \<open>
  Claim C7, as amended. \<open>createProviderFromConfig\<close> throws exactly when the provider of
  the configuration is none of \<open>openai\<close>, \<open>anthropic\<close>, \<open>google\<close>, and the message
  then names the provider as unsupported. For each of the three it returns the client
  of that vendor made from the key and the base URL of the configuration, bound to the
  model of the configuration, or to the vendor's default model name exactly when the
  model is absent or the empty string.
\<close>

theorem createProviderFromConfig_result:
  "(isl (createProviderFromConfig config)
      \<longleftrightarrow> provider config \<notin> {js ''openai'', js ''anthropic'', js ''google''})
   \<and> (createProviderFromConfig config = Inl msg
      \<longrightarrow> msg = js ''Unsupported provider: '' @ provider config)
   \<and> (createProviderFromConfig config = Inr client
      \<longrightarrow> provider config = provider_name (vendor client)
          \<and> client_apiKey client = apiKey config
          \<and> client_baseURL client = baseURL config
          \<and> modelId client =
              (case model config of
                 None \<Rightarrow> default_model (vendor client)
               | Some name \<Rightarrow> if name = [] then default_model (vendor client) else name))"
proof (intro conjI impI)
  show "isl (createProviderFromConfig config)
      \<longleftrightarrow> provider config \<notin> {js ''openai'', js ''anthropic'', js ''google''}"
    by (simp add: createProviderFromConfig_def)
next
  assume "createProviderFromConfig config = Inl msg"
  then show "msg = js ''Unsupported provider: '' @ provider config"
    by (auto simp: createProviderFromConfig_def split: if_splits)
next
  assume r: "createProviderFromConfig config = Inr client"
  then show "provider config = provider_name (vendor client)"
    by (auto simp: createProviderFromConfig_def split: if_splits)
  from r show "client_apiKey client = apiKey config"
    by (auto simp: createProviderFromConfig_def split: if_splits)
  from r show "client_baseURL client = baseURL config"
    by (auto simp: createProviderFromConfig_def split: if_splits)
  from r show "modelId client =
              (case model config of
                 None \<Rightarrow> default_model (vendor client)
               | Some name \<Rightarrow> if name = [] then default_model (vendor client) else name)"
    by (cases "model config") (auto simp: createProviderFromConfig_def split: if_splits)
qed

text \<open>
  Claim C7 on two configurations: one for \<open>openai\<close> with no model, which gets the
  default model, and one for an unknown provider, which is refused.
\<close>

theorem createProviderFromConfig_result_witness:
  "createProviderFromConfig example_config
     = Inr (LanguageModel OpenAI (js ''sk-test'') None (js ''gpt-4o-mini''))
   \<and> provider example_config = js ''openai''
   \<and> model example_config = None
   \<and> createProviderFromConfig (example_config\<lparr>provider := js ''mistral''\<rparr>)
       = Inl (js ''Unsupported provider: mistral'')"
proof -
  let ?client = "LanguageModel OpenAI (js ''sk-test'') None (js ''gpt-4o-mini'')"
  let ?other = "example_config\<lparr>provider := js ''mistral''\<rparr>"
  have h: "createProviderFromConfig example_config = Inr ?client"
    by code_simp
  have h': "createProviderFromConfig ?other = Inl (js ''Unsupported provider: mistral'')"
    by code_simp
  from createProviderFromConfig_result [of example_config _ ?client]
    createProviderFromConfig_result [of ?other "js ''Unsupported provider: mistral''"] h h'
  show ?thesis by (simp add: example_config_def)
qed

text \<open>
  Claim C7, as stated, fails on a configuration whose model is present and empty:
  \<^verbatim>\<open>config.model || "gpt-4o-mini"\<close> falls back to the default although a model is given.
\<close>

theorem createProviderFromConfig_empty_model_counterexample:
  "model (example_config\<lparr>model := Some []\<rparr>) \<noteq> None
   \<and> createProviderFromConfig (example_config\<lparr>model := Some []\<rparr>)
       = Inr (LanguageModel OpenAI (js ''sk-test'') None (js ''gpt-4o-mini''))"
  by code_simp

section \<open>Properties of the tool\<close>

lemma snd_emit: "snd (emit es run) = es @ snd run"
  by (simp add: emit_def)

lemma emit_emit: "emit es (emit es' run) = emit (es @ es') run"
  by (simp add: emit_def)

lemma commit_step_trace:
  "\<exists>e. snd (commit_step w selected) = [Exec (Commit (escapeQuotes selected)), e]
     \<and> (\<forall>p opts. e \<noteq> Select p opts)"
  by (simp add: commit_step_def Let_def snd_emit)

lemma selection_flow_Select:
  "Select p opts \<in> set (snd (selection_flow w candidates))
     \<Longrightarrow> opts = selection_options candidates"
  using commit_step_trace [of w "select w (selection_options candidates)"]
  by (auto simp: selection_flow_def Let_def snd_emit split: if_splits)

lemma generate_trace:
  "snd (generate w req diff config)
     = CreateProvider config # tl (snd (generate w req diff config))"
  by (simp add: generate_def snd_emit)

text \<open>
  A run that shows the selection is a run of the selection flow on the candidates
  parsed, after events that hold no commit, no confirmation and no error report.
\<close>

lemma generate_Select:
  assumes "Select p opts \<in> set (snd (generate w req diff config))"
  shows "\<exists>candidates pre. generate w req diff config = emit pre (selection_flow w candidates)
           \<and> candidates \<noteq> [] \<and> opts = selection_options candidates
           \<and> filter is_commit pre = [] \<and> filter is_confirm pre = []
           \<and> filter is_error_report pre = []"
proof (cases "createProviderFromConfig config")
  case (Inl msg)
  with assms show ?thesis by (simp add: generate_def snd_emit caught_def)
next
  case (Inr client)
  let ?prompt = "buildPrompt diff (format req) (count req) (language req)"
  show ?thesis
  proof (cases "generateText w client ?prompt")
    case (Inl msg)
    with assms Inr show ?thesis by (simp add: generate_def snd_emit caught_def Let_def)
  next
    case reply: (Inr reply)
    show ?thesis
    proof (cases "parseCommitCandidates reply = []")
      case True
      with assms Inr reply show ?thesis by (simp add: generate_def snd_emit Let_def)
    next
      case False
      let ?pre = "[CreateProvider config, GenerateText client ?prompt,
                   SpinSucceed (js ''Generated commit messages'')]"
      from False Inr reply
      have g: "generate w req diff config
                 = emit ?pre (selection_flow w (parseCommitCandidates reply))"
        by (simp add: generate_def Let_def emit_def)
      with assms have "Select p opts \<in> set (snd (selection_flow w (parseCommitCandidates reply)))"
        by (simp add: snd_emit)
      then have "opts = selection_options (parseCommitCandidates reply)"
        by (rule selection_flow_Select)
      with g False show ?thesis
        by (intro exI [of _ "parseCommitCandidates reply"] exI [of _ ?pre]) simp
    qed
  qed
qed

lemma execute_Select:
  assumes "Select p opts \<in> set (snd (execute w req))"
  shows "\<exists>candidates pre. execute w req = emit pre (selection_flow w candidates)
           \<and> candidates \<noteq> [] \<and> opts = selection_options candidates
           \<and> filter is_commit pre = [] \<and> filter is_confirm pre = []
           \<and> filter is_error_report pre = []"
proof -
  let ?staged = "execCommand w DiffStat"
  let ?diff = "exec_output (execCommand w DiffCached)"
  from assms have git: "exec_success (execCommand w RevParse)"
    by (auto simp: execute_def Let_def snd_emit split: if_splits)
  with assms have staged: "trim (exec_output ?staged) \<noteq> []"
    by (auto simp: execute_def Let_def snd_emit split: if_splits)
  with assms git obtain config where config: "getConfigAsync w = Some config"
    by (cases "getConfigAsync w") (auto simp: execute_def Let_def snd_emit)
  let ?pre = "[Exec RevParse, Exec DiffStat, Output (js ''Staged changes:''),
               Output (exec_output ?staged), Exec DiffCached, GetConfig,
               Spinner (js ''Generating commit messages...'')]"
  from git staged config have e: "execute w req = emit ?pre (generate w req ?diff config)"
    by (simp add: execute_def Let_def emit_def)
  with assms have "Select p opts \<in> set (snd (generate w req ?diff config))"
    by (simp add: snd_emit)
  from generate_Select [OF this] obtain candidates pre where
    g: "generate w req ?diff config = emit pre (selection_flow w candidates)"
      "candidates \<noteq> []" "opts = selection_options candidates"
      "filter is_commit pre = []" "filter is_confirm pre = []"
      "filter is_error_report pre = []"
    by blast
  then have "execute w req = emit (?pre @ pre) (selection_flow w candidates)
      \<and> filter is_commit (?pre @ pre) = [] \<and> filter is_confirm (?pre @ pre) = []
      \<and> filter is_error_report (?pre @ pre) = []"
    unfolding e by (simp add: emit_emit)
  with g(2,3) show ?thesis by blast
qed

lemma selection_flow_cancel:
  assumes "select w (selection_options candidates) = CANCEL"
  shows "selection_flow w candidates =
           (\<lparr>success = False, message = None, error = None, cancelled = Some True,
              suggestedMessage = None\<rparr>,
            [Select (js ''Select a commit message:'') (selection_options candidates),
             Output (js ''Cancelled'')])"
  using assms by (simp add: selection_flow_def Let_def emit_def)

lemma selection_flow_Confirm:
  assumes "Confirm q d \<in> set (snd (selection_flow w candidates))"
  shows "select w (selection_options candidates) \<noteq> CANCEL"
  using assms by (auto simp: selection_flow_def Let_def snd_emit split: if_splits)

lemma selection_flow_declined:
  assumes "select w (selection_options candidates) \<noteq> CANCEL" and "\<not> confirm w"
  shows "selection_flow w candidates =
           (\<lparr>success = False, message = None, error = None, cancelled = Some True,
              suggestedMessage = Some (select w (selection_options candidates))\<rparr>,
            [Select (js ''Select a commit message:'') (selection_options candidates),
             Confirm (js ''Commit with this message?'') True,
             Output (js ''Commit cancelled. You can commit manually with:''),
             Output (js ''git commit -m '' @ [DQUOTE] @ select w (selection_options candidates)
                       @ [DQUOTE])])"
  using assms by (simp add: selection_flow_def Let_def emit_def)

lemma last_selection_options:
  "last (selection_options candidates) = SelectOption (js ''Cancel'') CANCEL"
  by (simp add: selection_options_def)

lemma selection_options_nth:
  "i < length (selection_options candidates) - 1 \<Longrightarrow>
     selection_options candidates ! i = SelectOption (candidates ! i) (candidates ! i)"
  by (simp add: selection_options_def nth_append)

text \<open>
  Claim C5. In a run that has passed the repository check, and only such a run obtains
  a staged summary, when the output of \<^verbatim>\<open>git diff --cached --stat\<close> is empty after
  trimming, \<open>execute\<close> returns \<open>{success: false, error: "No staged changes"}\<close> and
  neither constructs a provider nor calls the model. More generally, in every run
  that constructs a provider or calls the model, the repository check has passed, the
  staged summary is not empty and a model is configured, and the two commands and the
  configuration accessor come before the first of these events.
\<close>

theorem execute_fails_fast:
  "(exec_success (execCommand w RevParse) \<and> trim (exec_output (execCommand w DiffStat)) = []
      \<longrightarrow> fst (execute w req) = \<lparr>success = False, message = None,
             error = Some (js ''No staged changes''), cancelled = None,
             suggestedMessage = None\<rparr>
          \<and> filter is_model_event (snd (execute w req)) = [])
   \<and> (filter is_model_event (snd (execute w req)) \<noteq> []
      \<longrightarrow> exec_success (execCommand w RevParse)
          \<and> trim (exec_output (execCommand w DiffStat)) \<noteq> []
          \<and> getConfigAsync w \<noteq> None
          \<and> {Exec RevParse, Exec DiffStat, GetConfig}
               \<subseteq> set (takeWhile (\<lambda>e. \<not> is_model_event e) (snd (execute w req))))"
proof (intro conjI impI)
  assume a: "exec_success (execCommand w RevParse)
               \<and> trim (exec_output (execCommand w DiffStat)) = []"
  then show "fst (execute w req) = \<lparr>success = False, message = None,
             error = Some (js ''No staged changes''), cancelled = None,
             suggestedMessage = None\<rparr>"
    by (simp add: execute_def emit_def failure_def)
  from a show "filter is_model_event (snd (execute w req)) = []"
    by (simp add: execute_def emit_def)
next
  assume m: "filter is_model_event (snd (execute w req)) \<noteq> []"
  then show git: "exec_success (execCommand w RevParse)"
    by (auto simp: execute_def Let_def snd_emit split: if_splits)
  with m show staged: "trim (exec_output (execCommand w DiffStat)) \<noteq> []"
    by (auto simp: execute_def Let_def snd_emit split: if_splits)
  with m git show config: "getConfigAsync w \<noteq> None"
    by (cases "getConfigAsync w") (auto simp: execute_def Let_def snd_emit)
  then obtain c where "getConfigAsync w = Some c" by blast
  with git staged
  show "{Exec RevParse, Exec DiffStat, GetConfig}
               \<subseteq> set (takeWhile (\<lambda>e. \<not> is_model_event e) (snd (execute w req)))"
    using generate_trace [of w req "exec_output (execCommand w DiffCached)" c]
    by (simp add: execute_def Let_def snd_emit)
qed

text \<open>
  Claim C5 on two worlds: one whose staged summary is a lone line feed, which ends
  with "No staged changes" before the model is touched, and one with staged changes,
  which reaches the model after the checks.
\<close>

theorem execute_fails_fast_witness:
  "exec_success (execCommand (example_world [NL] two_candidates (pick 0) True) RevParse)
   \<and> trim (exec_output (execCommand (example_world [NL] two_candidates (pick 0) True) DiffStat)) = []
   \<and> fst (execute (example_world [NL] two_candidates (pick 0) True) example_request)
       = \<lparr>success = False, message = None, error = Some (js ''No staged changes''),
          cancelled = None, suggestedMessage = None\<rparr>
   \<and> filter is_model_event
        (snd (execute (example_world [NL] two_candidates (pick 0) True) example_request)) = []
   \<and> filter is_model_event
        (snd (execute (example_world (js ''a.txt | 1 +'') two_candidates (pick 0) True)
           example_request)) \<noteq> []
   \<and> trim (exec_output (execCommand
        (example_world (js ''a.txt | 1 +'') two_candidates (pick 0) True) DiffStat)) \<noteq> []"
proof -
  let ?a = "example_world [NL] two_candidates (pick 0) True"
  let ?b = "example_world (js ''a.txt | 1 +'') two_candidates (pick 0) True"
  have h1: "exec_success (execCommand ?a RevParse)
              \<and> trim (exec_output (execCommand ?a DiffStat)) = []"
    by code_simp
  have h2: "filter is_model_event (snd (execute ?b example_request)) \<noteq> []"
    by code_simp
  from execute_fails_fast [of ?a example_request] execute_fails_fast [of ?b example_request]
    h1 h2
  show ?thesis by simp
qed

text \<open>
  Claim C6 fails on the code: step 2 looks at the output of the command and never at
  its \<open>success\<close>, which steps 1 and 7 do look at. When \<^verbatim>\<open>git diff --cached --stat\<close>
  exits with a non-zero status and has printed nothing, the run ends as "No staged
  changes".
\<close>

theorem execute_failed_diff_reported_as_nothing_staged:
  "\<not> exec_success (execCommand failing_diff_world DiffStat)
   \<and> fst (execute failing_diff_world example_request)
       = \<lparr>success = False, message = None, error = Some (js ''No staged changes''),
          cancelled = None, suggestedMessage = None\<rparr>"
  by code_simp

text \<open>
  Claim C8. In a run that shows the selection, when the operator selects the last
  option, the cancel sentinel, \<open>execute\<close> returns \<open>{success: false, cancelled: true}\<close>,
  runs no commit command and shows no confirmation.
\<close>

theorem execute_cancel_sentinel:
  assumes "Select p opts \<in> set (snd (execute w req))"
    and "select w opts = opt_value (last opts)"
  shows "fst (execute w req) = \<lparr>success = False, message = None, error = None,
            cancelled = Some True, suggestedMessage = None\<rparr>
         \<and> filter is_commit (snd (execute w req)) = []
         \<and> filter is_confirm (snd (execute w req)) = []"
proof -
  from execute_Select [OF assms(1)] obtain candidates pre where
    r: "execute w req = emit pre (selection_flow w candidates)"
      "opts = selection_options candidates"
      "filter is_commit pre = []" "filter is_confirm pre = []"
    by blast
  from assms(2) r(2) have "select w (selection_options candidates) = CANCEL"
    by (simp add: last_selection_options)
  then have "selection_flow w candidates =
           (\<lparr>success = False, message = None, error = None, cancelled = Some True,
              suggestedMessage = None\<rparr>,
            [Select (js ''Select a commit message:'') (selection_options candidates),
             Output (js ''Cancelled'')])"
    by (rule selection_flow_cancel)
  with r show ?thesis by (simp add: emit_def)
qed

text \<open>
  Claim C8 in a world where the model gives two candidates and the operator selects
  the third option shown, the sentinel.
\<close>

theorem execute_cancel_sentinel_witness:
  "Select (js ''Select a commit message:'')
      (selection_options [js ''feat(x): a'', js ''fix(y): b''])
     \<in> set (snd (execute (example_world (js ''a.txt | 1 +'') two_candidates (pick 2) True)
               example_request))
   \<and> select (example_world (js ''a.txt | 1 +'') two_candidates (pick 2) True)
        (selection_options [js ''feat(x): a'', js ''fix(y): b''])
       = opt_value (last (selection_options [js ''feat(x): a'', js ''fix(y): b'']))
   \<and> fst (execute (example_world (js ''a.txt | 1 +'') two_candidates (pick 2) True)
        example_request)
       = \<lparr>success = False, message = None, error = None, cancelled = Some True,
          suggestedMessage = None\<rparr>
   \<and> filter is_commit (snd (execute (example_world (js ''a.txt | 1 +'') two_candidates
        (pick 2) True) example_request)) = []"
proof -
  let ?w = "example_world (js ''a.txt | 1 +'') two_candidates (pick 2) True"
  let ?opts = "selection_options [js ''feat(x): a'', js ''fix(y): b'']"
  have h1: "Select (js ''Select a commit message:'') ?opts
              \<in> set (snd (execute ?w example_request))"
    by code_simp
  have h2: "select ?w ?opts = opt_value (last ?opts)"
    by code_simp
  from execute_cancel_sentinel [OF h1 h2] h1 h2 show ?thesis by simp
qed

text \<open>
  Claim C9. In a run that shows the selection and then the confirmation, when the
  operator answers the confirmation negatively, \<open>execute\<close> runs no commit command and
  returns the selected message as \<open>suggestedMessage\<close>, in a result with no \<open>error\<close>
  field, and the run reports no error and does not enter the \<^verbatim>\<open>catch\<close> block.
\<close>

theorem execute_declined:
  assumes "Select p opts \<in> set (snd (execute w req))"
    and "Confirm q d \<in> set (snd (execute w req))"
    and "\<not> confirm w"
  shows "fst (execute w req) = \<lparr>success = False, message = None, error = None,
            cancelled = Some True, suggestedMessage = Some (select w opts)\<rparr>
         \<and> filter is_commit (snd (execute w req)) = []
         \<and> filter is_error_report (snd (execute w req)) = []"
proof -
  from execute_Select [OF assms(1)] obtain candidates pre where
    r: "execute w req = emit pre (selection_flow w candidates)"
      "opts = selection_options candidates"
      "filter is_commit pre = []" "filter is_confirm pre = []"
      "filter is_error_report pre = []"
    by blast
  from r(4) have "Confirm q d \<notin> set pre"
    by (metis filter_empty_conv is_confirm.simps(1))
  with assms(2) r(1) have "Confirm q d \<in> set (snd (selection_flow w candidates))"
    by (simp add: snd_emit)
  then have chosen: "select w (selection_options candidates) \<noteq> CANCEL"
    by (rule selection_flow_Confirm)
  from selection_flow_declined [OF chosen assms(3)] r show ?thesis
    by (simp add: emit_def)
qed

text \<open>
  Claim C9 in a world where the model gives two candidates, the operator selects the
  second and declines the confirmation.
\<close>

theorem execute_declined_witness:
  "Select (js ''Select a commit message:'')
      (selection_options [js ''feat(x): a'', js ''fix(y): b''])
     \<in> set (snd (execute (example_world (js ''a.txt | 1 +'') two_candidates (pick 1) False)
               example_request))
   \<and> Confirm (js ''Commit with this message?'') True
     \<in> set (snd (execute (example_world (js ''a.txt | 1 +'') two_candidates (pick 1) False)
               example_request))
   \<and> \<not> confirm (example_world (js ''a.txt | 1 +'') two_candidates (pick 1) False)
   \<and> fst (execute (example_world (js ''a.txt | 1 +'') two_candidates (pick 1) False)
        example_request)
       = \<lparr>success = False, message = None, error = None, cancelled = Some True,
          suggestedMessage = Some (js ''fix(y): b'')\<rparr>
   \<and> filter is_commit (snd (execute (example_world (js ''a.txt | 1 +'') two_candidates
        (pick 1) False) example_request)) = []"
proof -
  let ?w = "example_world (js ''a.txt | 1 +'') two_candidates (pick 1) False"
  let ?opts = "selection_options [js ''feat(x): a'', js ''fix(y): b'']"
  have h1: "Select (js ''Select a commit message:'') ?opts
              \<in> set (snd (execute ?w example_request))"
    by code_simp
  have h2: "Confirm (js ''Commit with this message?'') True
              \<in> set (snd (execute ?w example_request))"
    by code_simp
  have h3: "\<not> confirm ?w"
    by code_simp
  have s: "select ?w ?opts = js ''fix(y): b''"
    by code_simp
  from execute_declined [OF h1 h2 h3, unfolded s] h1 h2 h3 show ?thesis by simp
qed

text \<open>
  Claim C10. In a run that shows the selection, when one of the candidates shown (an
  option before the last) has the value \<open>__cancel__\<close> and the operator selects it, the
  option is a candidate of that very text, and \<open>execute\<close> returns
  \<open>{success: false, cancelled: true}\<close>, shows no confirmation and runs no commit
  command.
\<close>

theorem execute_sentinel_collision:
  assumes "Select p opts \<in> set (snd (execute w req))"
    and "i < length opts - 1"
    and "opt_value (opts ! i) = CANCEL"
    and "select w opts = opt_value (opts ! i)"
  shows "opts ! i = SelectOption CANCEL CANCEL
         \<and> fst (execute w req) = \<lparr>success = False, message = None, error = None,
            cancelled = Some True, suggestedMessage = None\<rparr>
         \<and> filter is_confirm (snd (execute w req)) = []
         \<and> filter is_commit (snd (execute w req)) = []"
proof -
  from execute_Select [OF assms(1)] obtain candidates pre where
    r: "execute w req = emit pre (selection_flow w candidates)"
      "opts = selection_options candidates"
      "filter is_commit pre = []" "filter is_confirm pre = []"
    by blast
  from assms(2) r(2) have "opts ! i = SelectOption (candidates ! i) (candidates ! i)"
    by (simp add: selection_options_nth)
  with assms(3) have candidate: "opts ! i = SelectOption CANCEL CANCEL"
    by simp
  from assms(3,4) r(2) have "select w (selection_options candidates) = CANCEL"
    by simp
  then have "selection_flow w candidates =
           (\<lparr>success = False, message = None, error = None, cancelled = Some True,
              suggestedMessage = None\<rparr>,
            [Select (js ''Select a commit message:'') (selection_options candidates),
             Output (js ''Cancelled'')])"
    by (rule selection_flow_cancel)
  with r candidate show ?thesis by (simp add: emit_def)
qed

text \<open>
  Claim C10 in a world where the model replies \<open>1. __cancel__\<close> and the operator
  selects that candidate, the first of the two options shown.
\<close>

theorem execute_sentinel_collision_witness:
  "parseCommitCandidates (js ''1. __cancel__'') = [CANCEL]
   \<and> Select (js ''Select a commit message:'') (selection_options [CANCEL])
     \<in> set (snd (execute (example_world (js ''a.txt | 1 +'') (js ''1. __cancel__'') (pick 0) True)
               example_request))
   \<and> (0::nat) < length (selection_options [CANCEL]) - 1
   \<and> opt_value (selection_options [CANCEL] ! 0) = CANCEL
   \<and> fst (execute (example_world (js ''a.txt | 1 +'') (js ''1. __cancel__'') (pick 0) True)
        example_request)
       = \<lparr>success = False, message = None, error = None, cancelled = Some True,
          suggestedMessage = None\<rparr>
   \<and> filter is_confirm (snd (execute (example_world (js ''a.txt | 1 +'') (js ''1. __cancel__'')
        (pick 0) True) example_request)) = []"
proof -
  let ?w = "example_world (js ''a.txt | 1 +'') (js ''1. __cancel__'') (pick 0) True"
  let ?opts = "selection_options [CANCEL]"
  have h0: "parseCommitCandidates (js ''1. __cancel__'') = [CANCEL]"
    by code_simp
  have h1: "Select (js ''Select a commit message:'') ?opts
              \<in> set (snd (execute ?w example_request))"
    by code_simp
  have h2: "(0::nat) < length ?opts - 1"
    by code_simp
  have h3: "opt_value (?opts ! 0) = CANCEL"
    by code_simp
  have h4: "select ?w ?opts = opt_value (?opts ! 0)"
    by code_simp
  from execute_sentinel_collision [OF h1 h2 h3 h4] h0 h1 h2 h3 show ?thesis by simp
qed

end
